theory Spec2Isabelle
  imports Complex_Main "HOL-Library.Sublist"
begin

section \<open>JavaScript strings, restricted to ASCII\<close>

text \<open>
  SQL text is modelled as a \<^typ>\<open>string\<close> of ASCII characters. The string methods the
  query tool uses are written out on that alphabet: \<open>trim\<close> removes the ASCII white
  space characters (tab, line feed, vertical tab, form feed, carriage return, space) from
  both ends, \<open>toUpperCase\<close> maps \<open>a..z\<close> to \<open>A..Z\<close> and leaves every other
  character alone, \<open>includes\<close> (here \<open>str_includes\<close>) is the substring test and
  \<open>startsWith\<close> the prefix test. Characters beyond ASCII (where JavaScript has further white space and case
  mappings) are outside the model.
\<close>

definition is_space :: "char \<Rightarrow> bool" where
  "is_space c = (c \<in> set [CHR 0x09, CHR 0x0A, CHR 0x0B, CHR 0x0C, CHR 0x0D, CHR '' ''])"

definition trim :: "string \<Rightarrow> string" where
  "trim s = rev (dropWhile is_space (rev (dropWhile is_space s)))"

definition upper_char :: "char \<Rightarrow> char" where
  "upper_char c =
     (case map_of (zip ''abcdefghijklmnopqrstuvwxyz'' ''ABCDEFGHIJKLMNOPQRSTUVWXYZ'') c of
        None \<Rightarrow> c
      | Some d \<Rightarrow> d)"

definition toUpperCase :: "string \<Rightarrow> string" where
  "toUpperCase s = map upper_char s"

definition str_includes :: "string \<Rightarrow> string \<Rightarrow> bool" where
  "str_includes s t = sublist t s"

definition startsWith :: "string \<Rightarrow> string \<Rightarrow> bool" where
  "startsWith s t = prefix t s"

text \<open>\<open>s.replace(/;+$/, '')\<close>: the run of semicolons that ends the string is removed.\<close>

definition strip_semicolons :: "string \<Rightarrow> string" where
  "strip_semicolons s = rev (dropWhile (\<lambda>c. c = CHR '';'') (rev s))"

text \<open>
  \<open>s.split(/\s+/)\<close>: the pieces between maximal runs of white space; a string that
  starts (or ends) with white space yields an empty first (or last) piece, and the result
  always has at least one element.
\<close>

function split_ws :: "string \<Rightarrow> string list" where
  "split_ws s =
     (case dropWhile (\<lambda>c. \<not> is_space c) s of
        [] \<Rightarrow> [s]
      | r # rest \<Rightarrow> takeWhile (\<lambda>c. \<not> is_space c) s # split_ws (dropWhile is_space rest))"
  by pat_completeness auto
termination
proof (relation "measure length")
  show "wf (measure length)" by simp
next
  fix s :: string and r rest
  assume a: "dropWhile (\<lambda>c. \<not> is_space c) s = r # rest"
  have "length (dropWhile is_space rest) \<le> length rest"
    by (rule length_dropWhile_le)
  also have "\<dots> < length (r # rest)" by simp
  also have "\<dots> \<le> length s"
    unfolding a [symmetric] by (rule length_dropWhile_le)
  finally show "(dropWhile is_space rest, s) \<in> measure length" by simp
qed

declare split_ws.simps [simp del]

text \<open>
  Template literals print an integer in decimal (the page size and the offset are integers
  far below \<open>10^21\<close>, where JavaScript switches to exponent notation).
\<close>

definition digit_char :: "nat \<Rightarrow> char" where
  "digit_char d = ''0123456789'' ! (d mod 10)"

fun string_of_nat :: "nat \<Rightarrow> string" where
  "string_of_nat n =
     (if n < 10 then [digit_char n] else string_of_nat (n div 10) @ [digit_char (n mod 10)])"

declare string_of_nat.simps [simp del]

definition string_of_int :: "int \<Rightarrow> string" where
  "string_of_int i = (if i < 0 then CHR ''-'' # string_of_nat (nat (- i)) else string_of_nat (nat i))"

section \<open>Configuration\<close>

text \<open>
  \<open>MAX_PAGE_SIZE\<close>, \<open>DEFAULT_PAGE_SIZE\<close>, \<open>AUTO_LIMIT\<close> and \<open>MAX_PAYLOAD_SIZE\<close> are module
  constants read from \<open>config.query\<close>, which \<open>loadConfig\<close> fills from the environment
  (\<open>parseInt\<close> of \<open>MAX_PAGE_SIZE\<close>, default 500, and so on). They are threaded through the
  model as a record; the page sizes are integers and the payload limit, a byte count, is a
  natural number.
\<close>

record QueryConfig =
  MAX_PAGE_SIZE :: int
  DEFAULT_PAGE_SIZE :: int
  AUTO_LIMIT :: bool
  MAX_PAYLOAD_SIZE :: nat

definition defaultConfig :: QueryConfig where
  "defaultConfig = \<lparr> MAX_PAGE_SIZE = 500, DEFAULT_PAGE_SIZE = 100, AUTO_LIMIT = True,
                     MAX_PAYLOAD_SIZE = 5 * 1024 * 1024 \<rparr>"

section \<open>Pagination\<close>

definition isSingleRowAggregate :: "string \<Rightarrow> bool" where
  "isSingleRowAggregate upperSql =
     (let hasAggregates =
            (str_includes upperSql ''COUNT('' \<or> str_includes upperSql ''SUM('' \<or>
             str_includes upperSql ''AVG('' \<or> str_includes upperSql ''MAX('' \<or>
             str_includes upperSql ''MIN('');
          hasGroupBy = str_includes upperSql ''GROUP BY''
      in hasAggregates \<and> \<not> hasGroupBy)"

record PaginationPlan =
  sql :: string
  actualPageSize :: int
  actualOffset :: int

text \<open>
  \<open>pageSize || DEFAULT_PAGE_SIZE\<close> and \<open>offset || 0\<close>: an absent argument and the number
  0 are both falsy.
\<close>

definition or_default :: "int option \<Rightarrow> int \<Rightarrow> int" where
  "or_default v d = (case v of None \<Rightarrow> d | Some n \<Rightarrow> if n = 0 then d else n)"

definition falsy_num :: "int option \<Rightarrow> bool" where
  "falsy_num v = (case v of None \<Rightarrow> True | Some n \<Rightarrow> n = 0)"

definition applyPagination :: "QueryConfig \<Rightarrow> string \<Rightarrow> int option \<Rightarrow> int option \<Rightarrow> PaginationPlan" where
  "applyPagination cfg sqlString pageSize offset =
     (let cleanedSql = strip_semicolons (trim sqlString);
          upperSql = toUpperCase cleanedSql
      in if str_includes upperSql ''LIMIT'' \<or> str_includes upperSql ''OFFSET'' then
           \<lparr> sql = cleanedSql,
             actualPageSize = or_default pageSize (DEFAULT_PAGE_SIZE cfg),
             actualOffset = or_default offset 0 \<rparr>
         else
           let actualPageSize = min (or_default pageSize (DEFAULT_PAGE_SIZE cfg)) (MAX_PAGE_SIZE cfg);
               actualOffset = or_default offset 0
           in if isSingleRowAggregate upperSql then
                \<lparr> sql = cleanedSql, actualPageSize = actualPageSize, actualOffset = actualOffset \<rparr>
              else if \<not> AUTO_LIMIT cfg \<and> falsy_num pageSize then
                \<lparr> sql = cleanedSql, actualPageSize = actualPageSize, actualOffset = actualOffset \<rparr>
              else
                let paginatedSql = cleanedSql @ '' LIMIT '' @ string_of_int actualPageSize;
                    paginatedSql = (if actualOffset > 0
                                    then paginatedSql @ '' OFFSET '' @ string_of_int actualOffset
                                    else paginatedSql)
                in \<lparr> sql = paginatedSql, actualPageSize = actualPageSize, actualOffset = actualOffset \<rparr>)"


section \<open>JavaScript values\<close>

text \<open>
  Bound parameters arrive as \<open>unknown[]\<close> and the parser's WHERE node is read as
  \<open>any\<close>, so both are modelled as untyped JavaScript values. A number is a finite
  value or one of the three non-finite doubles.
\<close>

datatype jsnum = Finite rat | NaN | PosInfinity | NegInfinity

datatype jsval =
    JUndefined
  | JNull
  | JBool bool
  | JNum jsnum
  | JStr string
  | JObj "(string \<times> jsval) list"
  | JArr "jsval list"
  | JFun

fun typeOf :: "jsval \<Rightarrow> string" where
  "typeOf JUndefined = ''undefined''"
| "typeOf JNull = ''object''"
| "typeOf (JBool b) = ''boolean''"
| "typeOf (JNum n) = ''number''"
| "typeOf (JStr s) = ''string''"
| "typeOf (JObj fs) = ''object''"
| "typeOf (JArr xs) = ''object''"
| "typeOf JFun = ''function''"

fun isFinite :: "jsval \<Rightarrow> bool" where
  "isFinite (JNum (Finite q)) = True"
| "isFinite v = False"

fun truthy :: "jsval \<Rightarrow> bool" where
  "truthy JUndefined = False"
| "truthy JNull = False"
| "truthy (JBool b) = b"
| "truthy (JNum n) = (n \<noteq> Finite 0 \<and> n \<noteq> NaN)"
| "truthy (JStr s) = (s \<noteq> [])"
| "truthy (JObj fs) = True"
| "truthy (JArr xs) = True"
| "truthy JFun = True"

text \<open>
  \<open>a === b\<close>. Primitives are compared by value (\<open>NaN\<close> differs from itself); objects,
  arrays and functions are compared by reference, and two nodes read from different places
  of one parse tree are never the same object.
\<close>

fun strict_eq :: "jsval \<Rightarrow> jsval \<Rightarrow> bool" where
  "strict_eq JUndefined JUndefined = True"
| "strict_eq JNull JNull = True"
| "strict_eq (JBool a) (JBool b) = (a = b)"
| "strict_eq (JNum a) (JNum b) = (a = b \<and> a \<noteq> NaN)"
| "strict_eq (JStr a) (JStr b) = (a = b)"
| "strict_eq a b = False"

text \<open>
  \<open>v.k\<close> for the property names the validator reads (\<open>type\<close>, \<open>value\<close>, \<open>operator\<close>,
  \<open>left\<close>, \<open>right\<close>, \<open>column\<close>, \<open>expr\<close>): a missing property, and any of these
  read from a primitive, an array or a function, is \<open>undefined\<close>. The validator reads
  a property of \<open>null\<close> or \<open>undefined\<close> only behind a truthiness test or \<open>?.\<close>.
\<close>

fun get :: "jsval \<Rightarrow> string \<Rightarrow> jsval" where
  "get (JObj fs) k = (case map_of fs k of None \<Rightarrow> JUndefined | Some v \<Rightarrow> v)"
| "get v k = JUndefined"

text \<open>\<open>v?.k\<close> and \<open>a || b\<close>.\<close>

definition get_opt :: "jsval \<Rightarrow> string \<Rightarrow> jsval" where
  "get_opt v k = (if v = JNull \<or> v = JUndefined then JUndefined else get v k)"

definition js_or :: "jsval \<Rightarrow> jsval \<Rightarrow> jsval" where
  "js_or a b = (if truthy a then a else b)"

section \<open>Parameter validation\<close>

fun validateParameters :: "jsval list \<Rightarrow> string option" where
  "validateParameters [] = None"
| "validateParameters (param # rest) =
     (if param \<noteq> JNull \<and> typeOf param \<noteq> ''string'' \<and> typeOf param \<noteq> ''number'' \<and>
         typeOf param \<noteq> ''boolean''
      then Some ''Invalid parameter type - only string, number, boolean, and null are allowed''
      else if typeOf param = ''number'' \<and> \<not> isFinite param
      then Some ''Invalid numeric parameter - must be finite number''
      else validateParameters rest)"


section \<open>SQL safety validation\<close>

text \<open>
  \<open>isReadOnlyMode\<close> reads the environment variable \<open>READ_ONLY\<close> on every call: the
  server is in read-write mode only when the variable is set to the text \<open>false\<close>.
\<close>

definition isReadOnlyMode :: "string option \<Rightarrow> bool" where
  "isReadOnlyMode READ_ONLY = (READ_ONLY \<noteq> Some ''false'')"

definition DANGEROUS_OPERATIONS :: "string list" where
  "DANGEROUS_OPERATIONS =
     [''DROP'', ''CREATE'', ''ALTER'', ''TRUNCATE'', ''GRANT'', ''REVOKE'', ''VACUUM'',
      ''ANALYZE'', ''CLUSTER'', ''REINDEX'', ''COPY'', ''BACKUP'', ''RESTORE'', ''ATTACH'',
      ''DETACH'', ''PRAGMA'']"

text \<open>
  The parser (\<open>node-sql-parser\<close>) is an external library, taken as a parameter
  \<open>astify\<close>: \<open>None\<close> when it throws, otherwise one statement node or an array of them.
  Of a statement the validator reads \<open>type\<close> (absent: \<open>None\<close>) and \<open>where\<close>
  (absent: \<open>JUndefined\<close>; the parser writes \<open>null\<close> for a statement without a WHERE
  clause and an expression node otherwise).
\<close>

record statement =
  stmt_type :: "string option"
  stmt_where :: jsval

datatype ast = AstSingle statement | AstArray "statement list"

datatype SqlValidation = Valid | Invalid string

fun isValid :: "SqlValidation \<Rightarrow> bool" where
  "isValid Valid = True"
| "isValid (Invalid e) = False"

definition trivialWhereError :: "string \<Rightarrow> string" where
  "trivialWhereError statementType =
     statementType @ '' operations cannot use trivial WHERE clauses like WHERE 1=1 or WHERE TRUE''"

text \<open>
  The checks on the WHERE node of an UPDATE or DELETE, in the order of the source; the
  result says whether one of them returned the trivial-WHERE error.
\<close>

definition whereIsTrivial :: "jsval \<Rightarrow> bool" where
  "whereIsTrivial wh =
     (if truthy wh \<and> strict_eq (get wh ''type'') (JStr ''bool'') \<and>
         strict_eq (get wh ''value'') (JBool True) then True
      else if truthy wh \<and> strict_eq (get wh ''type'') (JStr ''number'') then True
      else if truthy wh \<and> strict_eq (get wh ''type'') (JStr ''binary_expr'') \<and>
              strict_eq (get wh ''operator'') (JStr ''='') then
        (let left = get wh ''left''; right = get wh ''right''
         in if truthy left \<and> truthy right \<and> strict_eq (get left ''type'') (JStr ''number'') \<and>
               strict_eq (get right ''type'') (JStr ''number'') \<and>
               strict_eq (get left ''value'') (get right ''value'') then True
            else if truthy left \<and> truthy right \<and>
                    strict_eq (get left ''type'') (JStr ''single_quote_string'') \<and>
                    strict_eq (get right ''type'') (JStr ''single_quote_string'') \<and>
                    strict_eq (get left ''value'') (get right ''value'') then True
            else if truthy left \<and> truthy right \<and>
                    strict_eq (get left ''type'') (JStr ''column_ref'') \<and>
                    strict_eq (get right ''type'') (JStr ''column_ref'') then
              (let leftExpr = js_or (get_opt (get left ''column'') ''expr'') (get left ''column'');
                   rightExpr = js_or (get_opt (get right ''column'') ''expr'') (get right ''column'')
               in if truthy leftExpr \<and> truthy rightExpr \<and>
                     strict_eq (get leftExpr ''type'') (JStr ''double_quote_string'') \<and>
                     strict_eq (get rightExpr ''type'') (JStr ''double_quote_string'') \<and>
                     strict_eq (get leftExpr ''value'') (get rightExpr ''value'') then True
                  else if typeOf leftExpr = ''string'' \<and> typeOf rightExpr = ''string'' \<and>
                          strict_eq leftExpr rightExpr then True
                  else False)
            else False)
      else False)"

text \<open>A template literal prints an \<open>undefined\<close> operand as the word \<open>undefined\<close>.\<close>

definition template :: "string option \<Rightarrow> string" where
  "template v = (case v of None \<Rightarrow> ''undefined'' | Some s \<Rightarrow> s)"

text \<open>
  The body of the loop over the statements: the error with which the loop returns at this
  statement, or \<open>None\<close> when it goes on to the next one.
\<close>

definition validateStatement :: "string option \<Rightarrow> statement \<Rightarrow> string option" where
  "validateStatement READ_ONLY stmt =
     (let statementType = map_option toUpperCase (stmt_type stmt)
      in if statementType \<in> Some ` set DANGEROUS_OPERATIONS then
           Some (''Dangerous operation '' @ [CHR 0x27] @ template statementType @ [CHR 0x27] @
                 '' is not allowed'')
         else if isReadOnlyMode READ_ONLY then
           (if statementType \<notin> Some ` set [''SELECT'', ''WITH'', ''EXPLAIN''] then
              Some ''Only SELECT, WITH, and EXPLAIN queries are allowed in read-only mode''
            else None)
         else if statementType = Some ''UPDATE'' \<or> statementType = Some ''DELETE'' then
           (if \<not> truthy (stmt_where stmt) then
              Some (template statementType @ '' operations must include a WHERE clause'')
            else if whereIsTrivial (stmt_where stmt) then
              Some (trivialWhereError (template statementType))
            else None)
         else None)"

fun validateStatements :: "string option \<Rightarrow> statement list \<Rightarrow> SqlValidation" where
  "validateStatements READ_ONLY [] = Valid"
| "validateStatements READ_ONLY (stmt # rest) =
     (case validateStatement READ_ONLY stmt of
        Some e \<Rightarrow> Invalid e
      | None \<Rightarrow> validateStatements READ_ONLY rest)"

definition validateSqlSafety ::
  "(string \<Rightarrow> ast option) \<Rightarrow> string option \<Rightarrow> string \<Rightarrow> SqlValidation" where
  "validateSqlSafety astify READ_ONLY sqlString =
     (if sqlString = [] then Invalid ''SQL query is required and must be a string''
      else
        let trimmedSql = trim sqlString
        in if trimmedSql = [] then Invalid ''SQL query cannot be empty''
           else
             let upperSql = toUpperCase trimmedSql;
                 sqlWords = split_ws upperSql;
                 firstWord = hd sqlWords
             in if firstWord \<in> set DANGEROUS_OPERATIONS then
                  Invalid (''Dangerous operation '' @ [CHR 0x27] @ firstWord @ [CHR 0x27] @
                           '' is not allowed'')
                else if firstWord = ''EXPLAIN'' then Valid
                else if firstWord = ''MERGE'' \<or> firstWord = ''UPSERT'' then
                  (if isReadOnlyMode READ_ONLY then
                     Invalid ''Only SELECT, WITH, and EXPLAIN queries are allowed in read-only mode''
                   else Invalid ''MERGE and UPSERT operations are not currently supported'')
                else
                  (case astify trimmedSql of
                     None \<Rightarrow> Invalid ''Invalid SQL syntax - unable to parse query''
                   | Some tree \<Rightarrow>
                       let statements = (case tree of AstArray xs \<Rightarrow> xs | AstSingle x \<Rightarrow> [x])
                       in validateStatements READ_ONLY statements))"

definition isReadOnlyQuery :: "string \<Rightarrow> bool" where
  "isReadOnlyQuery sqlString =
     (let upperSql = toUpperCase (trim sqlString)
      in startsWith upperSql ''SELECT'' \<or> startsWith upperSql ''WITH'' \<or>
         startsWith upperSql ''EXPLAIN'')"


section \<open>The query tool\<close>

text \<open>
  \<open>validateInput(QueryInputSchema, input)\<close> lives in \<open>validation.ts\<close> and is taken as
  a parameter: \<open>Inl\<close> its error text, \<open>Inr\<close> the validated request.
\<close>

record QueryInput =
  input_sql :: string
  input_parameters :: "jsval list option"
  input_pageSize :: "int option"
  input_offset :: "int option"

record Pagination =
  hasMore :: bool
  pageSize :: int
  offset :: int

record 'r QueryOutput =
  rows :: "'r list option"
  rowCount :: "nat option"
  pagination :: "Pagination option"
  error :: "string option"
  code :: "string option"
  hint :: "string option"

definition emptyOutput :: "'r QueryOutput" where
  "emptyOutput = \<lparr> rows = None, rowCount = None, pagination = None, error = None,
                    code = None, hint = None \<rparr>"

definition errorOutput :: "string \<Rightarrow> 'r QueryOutput" where
  "errorOutput e = emptyOutput \<lparr> error := Some e \<rparr>"

text \<open>
  The connection pool is the execution layer. \<open>pool.query(sql, params)\<close> (or
  \<open>pool.query(sql)\<close>, modelled by \<open>None\<close> for the parameters) either throws or
  resolves to a result with its rows and a row count that may be \<open>null\<close>. A thrown
  value has a message when it is an \<open>Error\<close>, and possibly the \<open>code\<close> and \<open>hint\<close>
  of a PostgreSQL error.
\<close>

record 'r QueryResult =
  result_rows :: "'r list"
  result_rowCount :: "nat option"

record Thrown =
  thrown_message :: "string option"
  thrown_code :: "string option"
  thrown_hint :: "string option"

type_synonym PoolCall = "string \<times> jsval list option"

type_synonym 'r Pool = "string \<Rightarrow> jsval list option \<Rightarrow> Thrown + 'r QueryResult"

fun join_space :: "string list \<Rightarrow> string" where
  "join_space [] = []"
| "join_space [w] = w"
| "join_space (w # ws) = w @ '' '' @ join_space ws"

text \<open>The \<open>catch\<close> block: \<open>errorMessage.replace(/\s+/g, " ").trim()\<close> and the code.\<close>

definition caught :: "Thrown \<Rightarrow> 'r QueryOutput" where
  "caught e =
     (let errorMessage = (case thrown_message e of None \<Rightarrow> ''Unknown error occurred'' | Some m \<Rightarrow> m);
          errorCode = (case thrown_code e of None \<Rightarrow> ''UNKNOWN''
                       | Some c \<Rightarrow> if c = [] then ''UNKNOWN'' else c);
          sanitizedError = trim (join_space (split_ws errorMessage))
      in emptyOutput \<lparr> error := Some sanitizedError, code := Some errorCode,
                       hint := thrown_hint e \<rparr>)"

text \<open>
  \<open>(bytes / (1024 * 1024)).toFixed(2)\<close>. The division by a power of two is exact in
  double precision, and \<open>toFixed(2)\<close> prints the integer \<open>n\<close> nearest to a hundred times
  the value (the larger one on a tie) with a point before its last two digits.
\<close>

definition toFixed2_MB :: "nat \<Rightarrow> string" where
  "toFixed2_MB bytes =
     (let n = (bytes * 100 + 524288) div 1048576
      in string_of_nat (n div 100) @ ''.'' @ [digit_char (n div 10), digit_char n])"

definition payloadTooLarge :: "nat \<Rightarrow> nat \<Rightarrow> string" where
  "payloadTooLarge payloadSize maxPayloadSize =
     ''Query result payload ('' @ toFixed2_MB payloadSize @
     ''MB) exceeds maximum allowed size ('' @ toFixed2_MB maxPayloadSize @
     ''MB). Please reduce pageSize or add more specific WHERE conditions to limit results.''"

text \<open>
  \<open>queryTool\<close> returns its output together with the calls it made to \<open>pool.query\<close>, in
  order. \<open>payloadBytes rows\<close> stands for
  \<open>Buffer.byteLength(JSON.stringify(rows), 'utf8')\<close>.
\<close>

definition queryTool ::
  "('i \<Rightarrow> string + QueryInput) \<Rightarrow> (string \<Rightarrow> ast option) \<Rightarrow> string option \<Rightarrow> QueryConfig \<Rightarrow>
   'r Pool \<Rightarrow> ('r list \<Rightarrow> nat) \<Rightarrow> 'i \<Rightarrow> 'r QueryOutput \<times> PoolCall list" where
  "queryTool validateInput astify READ_ONLY cfg pool payloadBytes input =
     (case validateInput input of
        Inl e \<Rightarrow> (errorOutput (''Input validation failed: '' @ e), [])
      | Inr validatedInput \<Rightarrow>
          (case validateSqlSafety astify READ_ONLY (input_sql validatedInput) of
             Invalid e \<Rightarrow> (errorOutput e, [])
           | Valid \<Rightarrow>
               let trimmedSql = trim (input_sql validatedInput);
                   params = (case input_parameters validatedInput of None \<Rightarrow> [] | Some ps \<Rightarrow> ps);
                   paramError = (if length params > 0 then validateParameters params else None);
                   args = (if length params > 0 then Some params else None)
               in case paramError of
                    Some e \<Rightarrow> (errorOutput e, [])
                  | None \<Rightarrow>
                      if isReadOnlyQuery trimmedSql then
                        (let plan = applyPagination cfg trimmedSql (input_pageSize validatedInput)
                                      (input_offset validatedInput)
                         in case pool (sql plan) args of
                              Inl thrown \<Rightarrow> (caught thrown, [(sql plan, args)])
                            | Inr result \<Rightarrow>
                                let payloadSize = payloadBytes (result_rows result)
                                in if payloadSize > MAX_PAYLOAD_SIZE cfg then
                                     (errorOutput (payloadTooLarge payloadSize (MAX_PAYLOAD_SIZE cfg)),
                                      [(sql plan, args)])
                                   else
                                     (emptyOutput
                                        \<lparr> rows := Some (result_rows result),
                                          rowCount := Some (length (result_rows result)),
                                          pagination := Some
                                            \<lparr> hasMore = (int (length (result_rows result)) = actualPageSize plan),
                                              pageSize = actualPageSize plan,
                                              offset = actualOffset plan \<rparr> \<rparr>,
                                      [(sql plan, args)]))
                      else
                        (let cleanedSql = strip_semicolons trimmedSql
                         in case pool cleanedSql args of
                              Inl thrown \<Rightarrow> (caught thrown, [(cleanedSql, args)])
                            | Inr result \<Rightarrow>
                                (emptyOutput
                                   \<lparr> rowCount := Some (case result_rowCount result of None \<Rightarrow> 0 | Some n \<Rightarrow> n) \<rparr>,
                                 [(cleanedSql, args)]))))"


section \<open>Reference definitions for the specification\<close>

text \<open>
  The leading word of a request, as \<open>validateSqlSafety\<close> computes it: the first piece of
  the trimmed, upper-cased text split at white space.
\<close>

definition firstWord :: "string \<Rightarrow> string" where
  "firstWord sqlString = hd (split_ws (toUpperCase (trim sqlString)))"

text \<open>
  The trivial WHERE shapes as the specification lists them, over the nodes of the parse
  tree: the literal \<open>TRUE\<close>; a bare numeric literal; an equality of two identical
  numeric literals, of two identical single-quoted string literals, or of two column
  references that resolve to the identical name. The name of a column reference is its
  \<open>column\<close> when that is a plain string, and otherwise the \<open>value\<close> of the node that
  \<open>column\<close> holds, directly or under \<open>expr\<close>, whatever the type of that node (an
  unquoted identifier or a double-quoted one).
\<close>

definition nodeType :: "jsval \<Rightarrow> string \<Rightarrow> bool" where
  "nodeType v t = (get v ''type'' = JStr t)"

definition isTrueLiteral :: "jsval \<Rightarrow> bool" where
  "isTrueLiteral w = (nodeType w ''bool'' \<and> get w ''value'' = JBool True)"

definition isNumericLiteral :: "jsval \<Rightarrow> bool" where
  "isNumericLiteral w = nodeType w ''number''"

definition isEqualityOf :: "(jsval \<Rightarrow> jsval \<Rightarrow> bool) \<Rightarrow> jsval \<Rightarrow> bool" where
  "isEqualityOf same w =
     (nodeType w ''binary_expr'' \<and> get w ''operator'' = JStr ''='' \<and>
      same (get w ''left'') (get w ''right''))"

definition sameNumericLiterals :: "jsval \<Rightarrow> jsval \<Rightarrow> bool" where
  "sameNumericLiterals l r =
     (nodeType l ''number'' \<and> nodeType r ''number'' \<and> strict_eq (get l ''value'') (get r ''value''))"

definition sameStringLiterals :: "jsval \<Rightarrow> jsval \<Rightarrow> bool" where
  "sameStringLiterals l r =
     (nodeType l ''single_quote_string'' \<and> nodeType r ''single_quote_string'' \<and>
      strict_eq (get l ''value'') (get r ''value''))"

definition columnRefName :: "jsval \<Rightarrow> string option" where
  "columnRefName c =
     (case get c ''column'' of
        JStr name \<Rightarrow> Some name
      | col \<Rightarrow>
          (case get (if truthy (get col ''expr'') then get col ''expr'' else col) ''value'' of
             JStr name \<Rightarrow> Some name
           | _ \<Rightarrow> None))"

definition sameColumns :: "jsval \<Rightarrow> jsval \<Rightarrow> bool" where
  "sameColumns l r =
     (nodeType l ''column_ref'' \<and> nodeType r ''column_ref'' \<and>
      columnRefName l \<noteq> None \<and> columnRefName l = columnRefName r)"

definition documentedTrivialShape :: "jsval \<Rightarrow> bool" where
  "documentedTrivialShape w =
     (isTrueLiteral w \<or> isNumericLiteral w \<or> isEqualityOf sameNumericLiterals w \<or>
      isEqualityOf sameStringLiterals w \<or> isEqualityOf sameColumns w)"

text \<open>The scalars of the specification: \<open>null\<close>, a boolean, a finite number, a string.\<close>

fun isScalar :: "jsval \<Rightarrow> bool" where
  "isScalar JNull = True"
| "isScalar (JBool b) = True"
| "isScalar (JNum n) = (n \<noteq> NaN \<and> n \<noteq> PosInfinity \<and> n \<noteq> NegInfinity)"
| "isScalar (JStr s) = True"
| "isScalar v = False"

text \<open>
  Modelled from the spec: \<open>validateInput(QueryInputSchema, input)\<close> of
  \<open>validation.ts\<close>, which is not among the sources. The specification gives the inbound
  contract: a request object with a required \<open>sql\<close> string, optional \<open>parameters\<close>, an
  array of primitives, an optional \<open>pageSize\<close>, an integer from 1 to \<open>MAX_PAGE_SIZE\<close>, and
  an optional \<open>offset\<close>, an integer from 0; a violation is rejected before the pipeline
  runs, with a message naming the offending field. A primitive is \<open>null\<close>, a string, a
  number or a boolean; that a number is finite is left to the parameter sanitizer, as the
  specification says. Of the messages only the field name comes from the specification.
\<close>

definition isPrimitive :: "jsval \<Rightarrow> bool" where
  "isPrimitive v =
     (v = JNull \<or> typeOf v = ''string'' \<or> typeOf v = ''number'' \<or> typeOf v = ''boolean'')"

fun isInteger :: "jsval \<Rightarrow> bool" where
  "isInteger (JNum (Finite q)) = (of_int (floor q) = q)"
| "isInteger v = False"

fun toInt :: "jsval \<Rightarrow> int" where
  "toInt (JNum (Finite q)) = floor q"
| "toInt v = 0"

definition validateInput_spec :: "QueryConfig \<Rightarrow> jsval \<Rightarrow> string + QueryInput" where
  "validateInput_spec cfg input =
     (let sqlField = get input ''sql'';
          parametersField = get input ''parameters'';
          pageSizeField = get input ''pageSize'';
          offsetField = get input ''offset''
      in if typeOf sqlField \<noteq> ''string'' then Inl ''sql: expected a string''
         else if parametersField \<noteq> JUndefined \<and>
                 \<not> (case parametersField of JArr xs \<Rightarrow> list_all isPrimitive xs | _ \<Rightarrow> False)
         then Inl ''parameters: expected an array of primitives''
         else if pageSizeField \<noteq> JUndefined \<and>
                 \<not> (isInteger pageSizeField \<and> 1 \<le> toInt pageSizeField \<and>
                    toInt pageSizeField \<le> MAX_PAGE_SIZE cfg)
         then Inl ''pageSize: expected an integer from 1 to the maximum page size''
         else if offsetField \<noteq> JUndefined \<and> \<not> (isInteger offsetField \<and> 0 \<le> toInt offsetField)
         then Inl ''offset: expected an integer from 0''
         else Inr \<lparr> input_sql = (case sqlField of JStr text \<Rightarrow> text | _ \<Rightarrow> []),
                    input_parameters = (case parametersField of JArr xs \<Rightarrow> Some xs | _ \<Rightarrow> None),
                    input_pageSize = (if pageSizeField = JUndefined then None
                                      else Some (toInt pageSizeField)),
                    input_offset = (if offsetField = JUndefined then None
                                    else Some (toInt offsetField)) \<rparr>)"

section \<open>Fixtures for the concrete instances\<close>

text \<open>
  Parse trees as \<open>node-sql-parser\<close> builds them for PostgreSQL (statement types are
  lower case; the \<open>column\<close> of a column reference holds, under \<open>expr\<close>, a node of type
  \<open>default\<close> for an unquoted identifier and of type \<open>double_quote_string\<close> for a
  double-quoted one), a parser given by a finite table of its results, a pool that
  answers every query with the same result, and requests.
\<close>

definition selectStatement :: statement where
  "selectStatement = \<lparr> stmt_type = Some ''select'', stmt_where = JNull \<rparr>"

definition updateStatement :: "jsval \<Rightarrow> statement" where
  "updateStatement wh = \<lparr> stmt_type = Some ''update'', stmt_where = wh \<rparr>"

definition deleteStatement :: "jsval \<Rightarrow> statement" where
  "deleteStatement wh = \<lparr> stmt_type = Some ''delete'', stmt_where = wh \<rparr>"

definition numberNode :: "rat \<Rightarrow> jsval" where
  "numberNode q = JObj [(''type'', JStr ''number''), (''value'', JNum (Finite q))]"

definition identifierNode :: "string \<Rightarrow> string \<Rightarrow> jsval" where
  "identifierNode kind name =
     JObj [(''type'', JStr ''column_ref''), (''table'', JNull),
           (''column'', JObj [(''expr'', JObj [(''type'', JStr kind), (''value'', JStr name)])])]"

definition columnNode :: "string \<Rightarrow> jsval" where
  "columnNode name = identifierNode ''default'' name"

definition quotedColumnNode :: "string \<Rightarrow> jsval" where
  "quotedColumnNode name = identifierNode ''double_quote_string'' name"

definition equalityNode :: "jsval \<Rightarrow> jsval \<Rightarrow> jsval" where
  "equalityNode l r =
     JObj [(''type'', JStr ''binary_expr''), (''operator'', JStr ''=''), (''left'', l), (''right'', r)]"

definition parserTable :: "(string \<times> ast) list \<Rightarrow> string \<Rightarrow> ast option" where
  "parserTable entries sqlText = map_of entries sqlText"

definition constPool :: "'r QueryResult \<Rightarrow> 'r Pool" where
  "constPool result sqlText args = Inr result"

definition acceptInput :: "QueryInput \<Rightarrow> string + QueryInput" where
  "acceptInput input = Inr input"

definition request :: "string \<Rightarrow> jsval list option \<Rightarrow> QueryInput" where
  "request sqlText params =
     \<lparr> input_sql = sqlText, input_parameters = params, input_pageSize = None, input_offset = None \<rparr>"

definition rawRequest :: "string \<Rightarrow> jsval list \<Rightarrow> jsval" where
  "rawRequest sqlText params = JObj [(''sql'', JStr sqlText), (''parameters'', JArr params)]"


section \<open>Facts about the string operations\<close>

lemma sublist_dropWhile_keeps:
  assumes "sublist xs ys" and "xs \<noteq> []" and "\<not> P (hd xs)"
  shows "sublist xs (dropWhile P ys)"
proof -
  from assms(1) obtain ps ss where ys: "ys = ps @ xs @ ss"
    by (auto simp: sublist_def)
  have "sublist xs (dropWhile P (ps @ xs @ ss))"
  proof (induction ps)
    case Nil
    from assms(2,3) have "dropWhile P (xs @ ss) = xs @ ss"
      by (cases xs) auto
    then show ?case by simp
  next
    case (Cons p ps)
    show ?case
    proof (cases "P p")
      case True
      with Cons show ?thesis by simp
    next
      case False
      then have "dropWhile P ((p # ps) @ xs @ ss) = (p # ps) @ xs @ ss" by simp
      then show ?thesis by (metis sublist_appendI)
    qed
  qed
  with ys show ?thesis by simp
qed

lemma sublist_dropWhile_iff:
  assumes "xs \<noteq> []" and "\<not> P (hd xs)"
  shows "sublist xs (dropWhile P ys) \<longleftrightarrow> sublist xs ys"
proof
  assume "sublist xs (dropWhile P ys)"
  moreover have "sublist (dropWhile P ys) ys"
    by (rule suffix_imp_sublist) (rule suffix_dropWhile)
  ultimately show "sublist xs ys"
    by (rule sublist_order.order.trans)
next
  assume "sublist xs ys"
  then show "sublist xs (dropWhile P ys)"
    using assms by (rule sublist_dropWhile_keeps)
qed

lemma sublist_dropWhile_end_iff:
  assumes "xs \<noteq> []" and "\<not> P (last xs)"
  shows "sublist xs (rev (dropWhile P (rev ys))) \<longleftrightarrow> sublist xs ys"
proof -
  have "sublist xs (rev (dropWhile P (rev ys))) \<longleftrightarrow> sublist (rev xs) (dropWhile P (rev ys))"
    by (simp add: sublist_rev_right)
  also have "\<dots> \<longleftrightarrow> sublist (rev xs) (rev ys)"
    using assms by (intro sublist_dropWhile_iff) (simp_all add: hd_rev)
  also have "\<dots> \<longleftrightarrow> sublist xs ys" by simp
  finally show ?thesis .
qed

lemma upper_char_cases:
  "upper_char c = c \<or> (c, upper_char c) \<in> set (zip ''abcdefghijklmnopqrstuvwxyz'' ''ABCDEFGHIJKLMNOPQRSTUVWXYZ'')"
  unfolding upper_char_def by (auto split: option.splits dest: map_of_SomeD)

lemma upper_char_letters:
  "upper_char c = c \<or>
   (c \<in> set ''abcdefghijklmnopqrstuvwxyz'' \<and> upper_char c \<in> set ''ABCDEFGHIJKLMNOPQRSTUVWXYZ'')"
  using upper_char_cases [of c] by (blast dest: set_zip_leftD set_zip_rightD)


lemma lower_not_space:
  "c \<in> set ''abcdefghijklmnopqrstuvwxyz'' \<Longrightarrow> \<not> is_space c \<and> c \<noteq> CHR '';''"
  by (auto simp: is_space_def)

lemma upper_not_space:
  "c \<in> set ''ABCDEFGHIJKLMNOPQRSTUVWXYZ'' \<Longrightarrow> \<not> is_space c \<and> c \<noteq> CHR '';''"
  by (auto simp: is_space_def)

lemma is_space_upper_char: "is_space (upper_char c) = is_space c"
  using upper_char_letters [of c] lower_not_space [of c] upper_not_space [of "upper_char c"]
  by metis

lemma semicolon_upper_char: "(upper_char c = CHR '';'') = (c = CHR '';'')"
  using upper_char_letters [of c] lower_not_space [of c] upper_not_space [of "upper_char c"]
  by metis

lemma toUpperCase_trim: "toUpperCase (trim s) = trim (toUpperCase s)"
  by (simp add: toUpperCase_def trim_def rev_map dropWhile_map comp_def is_space_upper_char)

lemma toUpperCase_strip_semicolons:
  "toUpperCase (strip_semicolons s) = strip_semicolons (toUpperCase s)"
  by (simp add: toUpperCase_def strip_semicolons_def rev_map dropWhile_map comp_def semicolon_upper_char)

lemma includes_trim:
  assumes "t \<noteq> []" and "\<not> is_space (hd t)" and "\<not> is_space (last t)"
  shows "str_includes (trim s) t = str_includes s t"
  using assms by (simp add: str_includes_def trim_def sublist_dropWhile_end_iff sublist_dropWhile_iff)

lemma includes_strip_semicolons:
  assumes "t \<noteq> []" and "last t \<noteq> CHR '';''"
  shows "str_includes (strip_semicolons s) t = str_includes s t"
  using assms by (simp add: str_includes_def strip_semicolons_def sublist_dropWhile_end_iff)

lemma includes_cleaned_LIMIT:
  "str_includes (toUpperCase (strip_semicolons (trim s))) ''LIMIT'' = str_includes (toUpperCase s) ''LIMIT''"
  by (simp add: toUpperCase_strip_semicolons toUpperCase_trim includes_strip_semicolons
      includes_trim is_space_def)

lemma includes_cleaned_OFFSET:
  "str_includes (toUpperCase (strip_semicolons (trim s))) ''OFFSET'' = str_includes (toUpperCase s) ''OFFSET''"
  by (simp add: toUpperCase_strip_semicolons toUpperCase_trim includes_strip_semicolons
      includes_trim is_space_def)

section \<open>Pagination: the branches of applyPagination\<close>

lemma applyPagination_existing:
  assumes "str_includes (toUpperCase s) ''LIMIT'' \<or> str_includes (toUpperCase s) ''OFFSET''"
  shows "applyPagination cfg s p off =
           \<lparr> sql = strip_semicolons (trim s),
             actualPageSize = or_default p (DEFAULT_PAGE_SIZE cfg),
             actualOffset = or_default off 0 \<rparr>"
  using assms
  by (simp add: applyPagination_def Let_def includes_cleaned_LIMIT includes_cleaned_OFFSET)

lemma applyPagination_fresh:
  assumes "\<not> str_includes (toUpperCase s) ''LIMIT''" and "\<not> str_includes (toUpperCase s) ''OFFSET''"
  shows "applyPagination cfg s p off =
           \<lparr> sql = (if isSingleRowAggregate (toUpperCase (strip_semicolons (trim s))) \<or>
                        (\<not> AUTO_LIMIT cfg \<and> falsy_num p)
                     then strip_semicolons (trim s)
                     else strip_semicolons (trim s) @ '' LIMIT '' @
                          string_of_int (min (or_default p (DEFAULT_PAGE_SIZE cfg)) (MAX_PAGE_SIZE cfg)) @
                          (if 0 < or_default off 0 then '' OFFSET '' @ string_of_int (or_default off 0)
                           else [])),
             actualPageSize = min (or_default p (DEFAULT_PAGE_SIZE cfg)) (MAX_PAGE_SIZE cfg),
             actualOffset = or_default off 0 \<rparr>"
  using assms
  by (simp add: applyPagination_def Let_def includes_cleaned_LIMIT includes_cleaned_OFFSET)

section \<open>Claims about pagination\<close>

text \<open>
  Claim C1. The page size reported by \<open>applyPagination\<close> is to be at most
  \<open>MAX_PAGE_SIZE\<close> for every SQL string and every requested page size, also in the branch
  where the SQL already contains LIMIT or OFFSET and is left unmodified. The code does not
  keep this: the early return of that branch reports \<open>pageSize || DEFAULT_PAGE_SIZE\<close>
  and is the only return without \<open>Math.min\<close>. With \<open>MAX_PAGE_SIZE\<close> configured as 200,
  a request for 300 rows on \<open>SELECT * FROM users LIMIT 10\<close> reports a page size of 300.
\<close>

theorem existing_limit_pageSize_above_max:
  "\<not> actualPageSize (applyPagination (defaultConfig \<lparr> MAX_PAGE_SIZE := 200 \<rparr>)
        ''SELECT * FROM users LIMIT 10'' (Some 300) None)
      \<le> MAX_PAGE_SIZE (defaultConfig \<lparr> MAX_PAGE_SIZE := 200 \<rparr>)"
proof -
  have u: "toUpperCase ''SELECT * FROM users LIMIT 10'' = ''SELECT * FROM USERS LIMIT 10''"
    by code_simp
  have "str_includes ''SELECT * FROM USERS LIMIT 10'' ''LIMIT''"
    by code_simp
  with u have "str_includes (toUpperCase ''SELECT * FROM users LIMIT 10'') ''LIMIT''"
    by simp
  then show ?thesis
    by (simp add: applyPagination_existing or_default_def defaultConfig_def)
qed

text \<open>
  The other returns that leave the SQL as it is report the capped size: for SQL without
  LIMIT and OFFSET the reported page size never exceeds \<open>MAX_PAGE_SIZE\<close>, and the
  single-row aggregate with the same request and configuration reports 200.
\<close>

lemma fresh_pageSize_capped:
  assumes "\<not> str_includes (toUpperCase s) ''LIMIT''" and "\<not> str_includes (toUpperCase s) ''OFFSET''"
  shows "actualPageSize (applyPagination cfg s p off) \<le> MAX_PAGE_SIZE cfg"
  using assms by (simp add: applyPagination_fresh)

lemma unmodified_aggregate_pageSize_capped:
  "applyPagination (defaultConfig \<lparr> MAX_PAGE_SIZE := 200 \<rparr>) ''SELECT COUNT(*) FROM users''
     (Some 300) None =
   \<lparr> sql = ''SELECT COUNT(*) FROM users'', actualPageSize = 200, actualOffset = 0 \<rparr>"
proof -
  have u: "toUpperCase ''SELECT COUNT(*) FROM users'' = ''SELECT COUNT(*) FROM USERS''"
    by code_simp
  have c: "strip_semicolons (trim ''SELECT COUNT(*) FROM users'') = ''SELECT COUNT(*) FROM users''"
    by code_simp
  have i1: "\<not> str_includes ''SELECT COUNT(*) FROM USERS'' ''LIMIT''"
    by code_simp
  have i2: "\<not> str_includes ''SELECT COUNT(*) FROM USERS'' ''OFFSET''"
    by code_simp
  have a: "isSingleRowAggregate ''SELECT COUNT(*) FROM USERS''"
    by code_simp
  show ?thesis
    by (simp add: applyPagination_fresh u c i1 i2 a or_default_def defaultConfig_def)
qed

text \<open>
  Claim C6 says that every SELECT without a limiting or skip clause gets a LIMIT clause
  appended. A single-row aggregate does not: \<open>SELECT COUNT(*) FROM users\<close> with a page
  size of 1 comes back without LIMIT.
\<close>

theorem aggregate_gets_no_limit:
  "sql (applyPagination defaultConfig ''SELECT COUNT(*) FROM users'' (Some 1) None) =
     ''SELECT COUNT(*) FROM users''"
proof -
  have u: "toUpperCase ''SELECT COUNT(*) FROM users'' = ''SELECT COUNT(*) FROM USERS''"
    by code_simp
  have c: "strip_semicolons (trim ''SELECT COUNT(*) FROM users'') = ''SELECT COUNT(*) FROM users''"
    by code_simp
  have i1: "\<not> str_includes ''SELECT COUNT(*) FROM USERS'' ''LIMIT''"
    by code_simp
  have i2: "\<not> str_includes ''SELECT COUNT(*) FROM USERS'' ''OFFSET''"
    by code_simp
  have a: "isSingleRowAggregate ''SELECT COUNT(*) FROM USERS''"
    by code_simp
  show ?thesis
    by (simp add: applyPagination_fresh u c i1 i2 a)
qed

text \<open>
  Claim C6, amended. For SQL text that contains neither LIMIT nor OFFSET, that is not a
  single-row aggregate (an aggregate call without GROUP BY), and unless \<open>AUTO_LIMIT\<close> is
  off while no page size was requested, \<open>applyPagination\<close> returns the cleaned SQL
  followed by \<open>LIMIT n\<close> with \<open>n = min(pageSize || DEFAULT_PAGE_SIZE, MAX_PAGE_SIZE)\<close>,
  followed by \<open>OFFSET m\<close> exactly when the effective offset \<open>m = offset || 0\<close> is
  greater than 0, and reports \<open>n\<close> as the page size and \<open>m\<close> as the offset.
\<close>

theorem limit_appended_when_applicable:
  assumes "\<not> str_includes (toUpperCase s) ''LIMIT''"
    and "\<not> str_includes (toUpperCase s) ''OFFSET''"
    and "\<not> isSingleRowAggregate (toUpperCase (strip_semicolons (trim s)))"
    and "AUTO_LIMIT cfg \<or> \<not> falsy_num p"
  shows "applyPagination cfg s p off =
           \<lparr> sql = strip_semicolons (trim s) @ '' LIMIT '' @
                   string_of_int (min (or_default p (DEFAULT_PAGE_SIZE cfg)) (MAX_PAGE_SIZE cfg)) @
                   (if 0 < or_default off 0 then '' OFFSET '' @ string_of_int (or_default off 0)
                    else []),
             actualPageSize = min (or_default p (DEFAULT_PAGE_SIZE cfg)) (MAX_PAGE_SIZE cfg),
             actualOffset = or_default off 0 \<rparr>"
  using assms by (auto simp: applyPagination_fresh)

theorem limit_appended_when_applicable_witness:
  "applyPagination defaultConfig ''SELECT * FROM users'' (Some 2) (Some 40) =
     \<lparr> sql = ''SELECT * FROM users LIMIT 2 OFFSET 40'', actualPageSize = 2, actualOffset = 40 \<rparr>"
proof -
  have u: "toUpperCase ''SELECT * FROM users'' = ''SELECT * FROM USERS''"
    by code_simp
  have c: "strip_semicolons (trim ''SELECT * FROM users'') = ''SELECT * FROM users''"
    by code_simp
  have h1: "\<not> str_includes (toUpperCase ''SELECT * FROM users'') ''LIMIT''"
    unfolding u by code_simp
  have h2: "\<not> str_includes (toUpperCase ''SELECT * FROM users'') ''OFFSET''"
    unfolding u by code_simp
  have h3: "\<not> isSingleRowAggregate (toUpperCase (strip_semicolons (trim ''SELECT * FROM users'')))"
    unfolding c u by code_simp
  have h4: "AUTO_LIMIT defaultConfig \<or> \<not> falsy_num (Some 2)"
    by (simp add: defaultConfig_def)
  have n: "string_of_int 2 = ''2''" "string_of_int 40 = ''40''"
    by code_simp+
  show ?thesis
    using limit_appended_when_applicable [OF h1 h2 h3 h4, of "Some 40"]
    by (simp add: c n or_default_def defaultConfig_def)
qed

text \<open>
  Claim C7 says that for SQL that already contains a limiting clause the rewritten SQL
  equals the input string unchanged. The code first trims the input and strips trailing
  semicolons, in this branch too: \<open>SELECT * FROM t LIMIT 5;\<close> comes back without its
  semicolon.
\<close>

theorem existing_limit_semicolon_stripped:
  "sql (applyPagination defaultConfig ''SELECT * FROM t LIMIT 5;'' (Some 10) (Some 20)) \<noteq>
     ''SELECT * FROM t LIMIT 5;''"
proof -
  have u: "toUpperCase ''SELECT * FROM t LIMIT 5;'' = ''SELECT * FROM T LIMIT 5;''"
    by code_simp
  have c: "strip_semicolons (trim ''SELECT * FROM t LIMIT 5;'') = ''SELECT * FROM t LIMIT 5''"
    by code_simp
  have i: "str_includes ''SELECT * FROM T LIMIT 5;'' ''LIMIT''"
    by code_simp
  show ?thesis
    by (simp add: applyPagination_existing u c i)
qed

text \<open>
  Claim C7, amended. For SQL that already contains LIMIT, and all requested page sizes and
  offsets, the rewritten SQL is the input with surrounding white space trimmed and
  trailing semicolons stripped, nothing appended; it equals the input whenever the input
  has no surrounding white space and no trailing semicolon.
\<close>

theorem existing_limit_returns_cleaned_sql:
  assumes "str_includes (toUpperCase s) ''LIMIT''"
  shows "sql (applyPagination cfg s n m) = strip_semicolons (trim s) \<and>
         (trim s = s \<and> strip_semicolons s = s \<longrightarrow> sql (applyPagination cfg s n m) = s)"
  using assms by (simp add: applyPagination_existing)

theorem existing_limit_returns_cleaned_sql_witness:
  "sql (applyPagination defaultConfig ''SELECT * FROM t LIMIT 5'' (Some 10) (Some 20)) =
     ''SELECT * FROM t LIMIT 5''"
proof -
  have u: "toUpperCase ''SELECT * FROM t LIMIT 5'' = ''SELECT * FROM T LIMIT 5''"
    by code_simp
  have h: "str_includes (toUpperCase ''SELECT * FROM t LIMIT 5'') ''LIMIT''"
    unfolding u by code_simp
  have c: "trim ''SELECT * FROM t LIMIT 5'' = ''SELECT * FROM t LIMIT 5''"
    "strip_semicolons ''SELECT * FROM t LIMIT 5'' = ''SELECT * FROM t LIMIT 5''"
    by code_simp+
  show ?thesis
    using existing_limit_returns_cleaned_sql [OF h, of defaultConfig "Some 10" "Some 20"] c by simp
qed

text \<open>
  Claim C10 says that the detection of an existing limiting clause is a substring search
  for LIMIT or OFFSET over the whole upper-cased text, string literals, comments and
  identifiers included, and that the SQL is then returned unmodified. The search is as
  described, but the returned text is the cleaned one: a trailing semicolon is gone.
\<close>

theorem limit_in_literal_semicolon_stripped:
  "sql (applyPagination defaultConfig ''SELECT 'no limit here' AS note FROM t;'' (Some 10) None) \<noteq>
     ''SELECT 'no limit here' AS note FROM t;''"
proof -
  have u: "toUpperCase ''SELECT 'no limit here' AS note FROM t;'' =
           ''SELECT 'NO LIMIT HERE' AS NOTE FROM T;''"
    by code_simp
  have c: "strip_semicolons (trim ''SELECT 'no limit here' AS note FROM t;'') =
           ''SELECT 'no limit here' AS note FROM t''"
    by code_simp
  have i: "str_includes ''SELECT 'NO LIMIT HERE' AS NOTE FROM T;'' ''LIMIT''"
    by code_simp
  show ?thesis
    by (simp add: applyPagination_existing u c i)
qed

text \<open>
  Claim C10, amended. For every SQL string whose upper-cased text contains the characters
  LIMIT or OFFSET anywhere (inside a string literal, a comment or an identifier too), and
  every requested page size and offset, no LIMIT clause is appended: the SQL returned is
  the input with surrounding white space trimmed and trailing semicolons stripped, which is
  the input itself when it has neither.
\<close>

theorem limit_detection_is_substring_search:
  assumes "toUpperCase s = before @ ''LIMIT'' @ after \<or> toUpperCase s = before @ ''OFFSET'' @ after"
  shows "sql (applyPagination cfg s p off) = strip_semicolons (trim s) \<and>
         (trim s = s \<and> strip_semicolons s = s \<longrightarrow> sql (applyPagination cfg s p off) = s)"
proof -
  from assms have "str_includes (toUpperCase s) ''LIMIT'' \<or> str_includes (toUpperCase s) ''OFFSET''"
    unfolding str_includes_def by (metis sublist_appendI)
  then show ?thesis by (simp add: applyPagination_existing)
qed

theorem limit_detection_is_substring_search_witness:
  "sql (applyPagination defaultConfig ''SELECT 'no limit here' AS note FROM t'' (Some 10) (Some 5)) =
     ''SELECT 'no limit here' AS note FROM t'' \<and>
   sql (applyPagination defaultConfig ''SELECT * FROM t ORDER BY id OFFSET 20 ;'' None None) =
     ''SELECT * FROM t ORDER BY id OFFSET 20 ''"
proof -
  let ?q = "''SELECT 'no limit here' AS note FROM t''"
  let ?r = "''SELECT * FROM t ORDER BY id OFFSET 20 ;''"
  have u: "toUpperCase ?q = ''SELECT 'NO '' @ ''LIMIT'' @ '' HERE' AS NOTE FROM T''"
    by code_simp
  then have h: "toUpperCase ?q = ''SELECT 'NO '' @ ''LIMIT'' @ '' HERE' AS NOTE FROM T'' \<or>
        toUpperCase ?q = ''SELECT 'NO '' @ ''OFFSET'' @ '' HERE' AS NOTE FROM T''"
    by (rule disjI1)
  have c: "trim ?q = ?q" "strip_semicolons ?q = ?q"
    by code_simp+
  have "toUpperCase ?r = ''SELECT * FROM T ORDER BY ID '' @ ''OFFSET'' @ '' 20 ;''"
    by code_simp
  then have k: "toUpperCase ?r = ''SELECT * FROM T ORDER BY ID '' @ ''LIMIT'' @ '' 20 ;'' \<or>
        toUpperCase ?r = ''SELECT * FROM T ORDER BY ID '' @ ''OFFSET'' @ '' 20 ;''"
    by (rule disjI2)
  have d: "strip_semicolons (trim ?r) = ''SELECT * FROM t ORDER BY id OFFSET 20 ''"
    by code_simp
  show ?thesis
    using limit_detection_is_substring_search [OF h, of defaultConfig "Some 10" "Some 5"]
          limit_detection_is_substring_search [OF k, of defaultConfig None None]
    by (simp add: c d)
qed

section \<open>Facts about validation\<close>

lemma split_ws_Nil: "split_ws [] = [[]]"
  by (simp add: split_ws.simps)

lemma hd_split_ws: "hd (split_ws s) = takeWhile (\<lambda>c. \<not> is_space c) s"
proof (cases "dropWhile (\<lambda>c. \<not> is_space c) s")
  case Nil
  have "split_ws s = [s]"
    by (subst split_ws.simps) (simp only: Nil list.case)
  moreover from Nil have "takeWhile (\<lambda>c. \<not> is_space c) s = s" by simp
  ultimately show ?thesis by (simp only: list.sel)
next
  case (Cons r rest)
  have "split_ws s = takeWhile (\<lambda>c. \<not> is_space c) s # split_ws (dropWhile is_space rest)"
    by (subst split_ws.simps) (simp only: Cons list.case)
  then show ?thesis by simp
qed

lemma firstWord_takeWhile:
  "firstWord s = takeWhile (\<lambda>c. \<not> is_space c) (toUpperCase (trim s))"
  by (simp add: firstWord_def hd_split_ws)

lemma firstWord_empty: "trim s = [] \<Longrightarrow> firstWord s = []"
  by (simp add: firstWord_def toUpperCase_def split_ws_Nil)

lemma trim_Nil: "trim [] = []"
  by (simp add: trim_def)

lemma validateSqlSafety_dangerous:
  assumes "firstWord s \<in> set DANGEROUS_OPERATIONS"
  shows "validateSqlSafety astify READ_ONLY s =
           Invalid (''Dangerous operation '' @ [CHR 0x27] @ firstWord s @ [CHR 0x27] @
                    '' is not allowed'')"
proof -
  have "[] \<notin> set DANGEROUS_OPERATIONS"
    by (simp add: DANGEROUS_OPERATIONS_def)
  with assms have "firstWord s \<noteq> []" by metis
  then have t: "trim s \<noteq> []" using firstWord_empty by blast
  then have "s \<noteq> []" using trim_Nil by blast
  with t assms show ?thesis
    by (simp add: validateSqlSafety_def Let_def firstWord_def)
qed

lemma validateSqlSafety_parsed:
  assumes "trim s \<noteq> []" and "firstWord s \<notin> set DANGEROUS_OPERATIONS"
    and "firstWord s \<noteq> ''EXPLAIN''" and "firstWord s \<noteq> ''MERGE''" and "firstWord s \<noteq> ''UPSERT''"
  shows "validateSqlSafety astify READ_ONLY s =
           (case astify (trim s) of
              None \<Rightarrow> Invalid ''Invalid SQL syntax - unable to parse query''
            | Some tree \<Rightarrow>
                validateStatements READ_ONLY (case tree of AstArray xs \<Rightarrow> xs | AstSingle x \<Rightarrow> [x]))"
proof -
  from assms(1) have "s \<noteq> []" using trim_Nil by blast
  with assms show ?thesis
    unfolding validateSqlSafety_def Let_def firstWord_def by simp
qed

lemma validateStatements_all:
  "isValid (validateStatements READ_ONLY stmts) =
     list_all (\<lambda>st. validateStatement READ_ONLY st = None) stmts"
  by (induction stmts) (auto split: option.splits)

lemma validateStatements_first_error:
  assumes "list_all (\<lambda>st. validateStatement READ_ONLY st = None) pre"
    and "validateStatement READ_ONLY st = Some e"
  shows "validateStatements READ_ONLY (pre @ st # post) = Invalid e"
  using assms by (induction pre) auto

lemma isValid_iff: "isValid v = (v = Valid)"
  by (cases v) auto

lemma isFinite_num: "isFinite (JNum n) = (n \<noteq> NaN \<and> n \<noteq> PosInfinity \<and> n \<noteq> NegInfinity)"
  by (cases n) auto

lemma isScalar_iff:
  "isScalar p =
     (\<not> (p \<noteq> JNull \<and> typeOf p \<noteq> ''string'' \<and> typeOf p \<noteq> ''number'' \<and> typeOf p \<noteq> ''boolean'') \<and>
      \<not> (typeOf p = ''number'' \<and> \<not> isFinite p))"
  by (cases p) (auto simp: isFinite_num)

lemma validateParameters_None_iff: "(validateParameters ps = None) = list_all isScalar ps"
  by (induction ps) (simp_all add: isScalar_iff)

lemma queryTool_input_rejected:
  assumes "validateInput input = Inl e"
  shows "queryTool validateInput astify READ_ONLY cfg pool payloadBytes input =
           (errorOutput (''Input validation failed: '' @ e), [])"
  using assms by (simp add: queryTool_def)

lemma queryTool_bad_parameters:
  assumes "validateInput input = Inr v" and "input_parameters v = Some params"
    and "validateParameters params = Some e"
  shows "snd (queryTool validateInput astify READ_ONLY cfg pool payloadBytes input) = [] \<and>
         rows (fst (queryTool validateInput astify READ_ONLY cfg pool payloadBytes input)) = None \<and>
         error (fst (queryTool validateInput astify READ_ONLY cfg pool payloadBytes input)) \<noteq> None \<and>
         (\<forall>se. validateSqlSafety astify READ_ONLY (input_sql v) = Invalid se \<longrightarrow>
            fst (queryTool validateInput astify READ_ONLY cfg pool payloadBytes input) = errorOutput se) \<and>
         (validateSqlSafety astify READ_ONLY (input_sql v) = Valid \<longrightarrow>
            fst (queryTool validateInput astify READ_ONLY cfg pool payloadBytes input) = errorOutput e)"
proof -
  from assms(3) have "params \<noteq> []" by auto
  with assms show ?thesis
    by (cases "validateSqlSafety astify READ_ONLY (input_sql v)")
       (simp_all add: queryTool_def Let_def errorOutput_def emptyOutput_def)
qed

lemma validateInput_spec_non_primitive:
  assumes "get raw ''parameters'' = JArr xs" and "\<not> list_all isPrimitive xs"
  shows "\<exists>e. validateInput_spec cfg raw = Inl e"
  using assms by (simp add: validateInput_spec_def Let_def)

lemma upper_select: "toUpperCase ''select'' = ''SELECT''"
  by code_simp
lemma upper_update: "toUpperCase ''update'' = ''UPDATE''"
  by code_simp
lemma upper_delete: "toUpperCase ''delete'' = ''DELETE''"
  by code_simp

lemma select_passes: "validateStatement READ_ONLY selectStatement = None"
  by (simp add: validateStatement_def selectStatement_def upper_select DANGEROUS_OPERATIONS_def
      image_iff Let_def)

section \<open>Claims about SQL safety validation\<close>

text \<open>
  Claim C2. For every SQL string whose upper-cased leading word is one of the dangerous
  operations, validation rejects with the error \<open>Dangerous operation '<word>' is not allowed\<close>,
  which names the operation and contains \<open>not allowed\<close>. The result is the same for every
  value of \<open>READ_ONLY\<close> (read-only and read-write mode) and for every parser, the one that
  fails included: the rejection is decided before the parser or a mode-specific rule is
  consulted.
\<close>

theorem dangerous_leading_word_rejected:
  assumes "firstWord s \<in> set DANGEROUS_OPERATIONS"
  shows "validateSqlSafety astify READ_ONLY s =
           Invalid (''Dangerous operation '' @ [CHR 0x27] @ firstWord s @ [CHR 0x27] @
                    '' is not allowed'') \<and>
         str_includes (''Dangerous operation '' @ [CHR 0x27] @ firstWord s @ [CHR 0x27] @
                    '' is not allowed'') (firstWord s) \<and>
         str_includes (''Dangerous operation '' @ [CHR 0x27] @ firstWord s @ [CHR 0x27] @
                    '' is not allowed'') ''not allowed''"
proof -
  have "''Dangerous operation '' @ [CHR 0x27] @ firstWord s @ [CHR 0x27] @ '' is not allowed'' =
        (''Dangerous operation '' @ [CHR 0x27] @ firstWord s @ [CHR 0x27] @ '' is '') @ ''not allowed''"
    by simp
  then have a: "sublist ''not allowed''
      (''Dangerous operation '' @ [CHR 0x27] @ firstWord s @ [CHR 0x27] @ '' is not allowed'')"
    by (metis sublist_append_leftI)
  have "''Dangerous operation '' @ [CHR 0x27] @ firstWord s @ [CHR 0x27] @ '' is not allowed'' =
        (''Dangerous operation '' @ [CHR 0x27]) @ firstWord s @ ([CHR 0x27] @ '' is not allowed'')"
    by simp
  then have b: "sublist (firstWord s)
      (''Dangerous operation '' @ [CHR 0x27] @ firstWord s @ [CHR 0x27] @ '' is not allowed'')"
    by (metis sublist_appendI)
  from a b validateSqlSafety_dangerous [OF assms] show ?thesis
    by (simp add: str_includes_def)
qed

theorem dangerous_leading_word_rejected_witness:
  "validateSqlSafety (parserTable []) None ''DROP TABLE users'' =
     Invalid ''Dangerous operation 'DROP' is not allowed'' \<and>
   validateSqlSafety (parserTable []) (Some ''false'') ''DROP TABLE users'' =
     Invalid ''Dangerous operation 'DROP' is not allowed''"
proof -
  have f: "firstWord ''DROP TABLE users'' = ''DROP''"
    unfolding firstWord_def by code_simp
  have d: "firstWord ''DROP TABLE users'' \<in> set DANGEROUS_OPERATIONS"
    unfolding f by (simp add: DANGEROUS_OPERATIONS_def)
  show ?thesis
    using dangerous_leading_word_rejected [OF d, of "parserTable []" None] dangerous_leading_word_rejected [OF d, of "parserTable []" "Some ''false''"]
    by (simp add: f)
qed

text \<open>
  Claim C3 says that a SQL string that parses into more than one statement is rejected
  rather than split into individually validated statements. The code loops over the
  statements and validates each one: a batch of two SELECT statements is accepted.
\<close>

theorem batch_of_selects_accepted:
  "validateSqlSafety
     (parserTable [(''SELECT 1; SELECT 2'', AstArray [selectStatement, selectStatement])])
     None ''SELECT 1; SELECT 2'' = Valid"
proof -
  have t: "trim ''SELECT 1; SELECT 2'' = ''SELECT 1; SELECT 2''"
    by code_simp
  have f: "firstWord ''SELECT 1; SELECT 2'' = ''SELECT''"
    unfolding firstWord_def by code_simp
  have u: "toUpperCase ''select'' = ''SELECT''"
    by code_simp
  have v: "validateStatement None selectStatement = None"
    by (simp add: validateStatement_def selectStatement_def u DANGEROUS_OPERATIONS_def
        isReadOnlyMode_def image_iff)
  show ?thesis
    by (simp add: validateSqlSafety_parsed t f DANGEROUS_OPERATIONS_def parserTable_def v)
qed

text \<open>
  Claim C3, amended. A SQL string that reaches the parser (it is not empty, and its
  leading word is neither a dangerous operation nor EXPLAIN, MERGE or UPSERT, which are
  decided by that word alone, before any parsing) and that parses into several statements
  is not rejected for being a batch. It is validated statement by statement: it is
  accepted exactly when every statement passes the rules on its own, and otherwise it is
  rejected with the error of the first statement that fails.
\<close>

theorem batch_validated_statement_by_statement:
  assumes "trim s \<noteq> []" and "firstWord s \<notin> set DANGEROUS_OPERATIONS"
    and "firstWord s \<noteq> ''EXPLAIN''" and "firstWord s \<noteq> ''MERGE''" and "firstWord s \<noteq> ''UPSERT''"
    and "astify (trim s) = Some (AstArray stmts)"
  shows "(validateSqlSafety astify READ_ONLY s = Valid) =
           list_all (\<lambda>st. validateStatement READ_ONLY st = None) stmts \<and>
         (\<forall>pre st post e.
            stmts = pre @ st # post \<and>
            list_all (\<lambda>st. validateStatement READ_ONLY st = None) pre \<and>
            validateStatement READ_ONLY st = Some e \<longrightarrow>
            validateSqlSafety astify READ_ONLY s = Invalid e)"
proof -
  have "validateSqlSafety astify READ_ONLY s = validateStatements READ_ONLY stmts"
    using assms by (simp add: validateSqlSafety_parsed)
  then show ?thesis
    using validateStatements_all [of READ_ONLY stmts] validateStatements_first_error [of READ_ONLY]
    by (auto simp: isValid_iff)
qed

theorem batch_validated_statement_by_statement_witness:
  "validateSqlSafety
     (parserTable [(''SELECT 1; DELETE FROM t'', AstArray [selectStatement, deleteStatement JNull])])
     (Some ''false'') ''SELECT 1; DELETE FROM t'' =
   Invalid ''DELETE operations must include a WHERE clause''"
proof -
  let ?q = "''SELECT 1; DELETE FROM t''"
  let ?astify = "parserTable [(?q, AstArray [selectStatement, deleteStatement JNull])]"
  have t: "trim ?q = ?q"
    by code_simp
  have f: "firstWord ?q = ''SELECT''"
    unfolding firstWord_def by code_simp
  have h1: "trim ?q \<noteq> []" unfolding t by simp
  have h2: "firstWord ?q \<notin> set DANGEROUS_OPERATIONS"
    unfolding f by (simp add: DANGEROUS_OPERATIONS_def)
  have h3: "firstWord ?q \<noteq> ''EXPLAIN''" "firstWord ?q \<noteq> ''MERGE''" "firstWord ?q \<noteq> ''UPSERT''"
    unfolding f by simp_all
  have h4: "?astify (trim ?q) = Some (AstArray [selectStatement, deleteStatement JNull])"
    unfolding t by (simp add: parserTable_def)
  have d: "validateStatement (Some ''false'') (deleteStatement JNull) =
             Some ''DELETE operations must include a WHERE clause''"
    by (simp add: validateStatement_def deleteStatement_def upper_delete DANGEROUS_OPERATIONS_def
        image_iff isReadOnlyMode_def template_def Let_def)
  from batch_validated_statement_by_statement [where s = ?q and astify = ?astify and READ_ONLY = "Some ''false''", OF h1 h2 h3 h4]
  have "\<forall>pre st post e.
          [selectStatement, deleteStatement JNull] = pre @ st # post \<and>
          list_all (\<lambda>st. validateStatement (Some ''false'') st = None) pre \<and>
          validateStatement (Some ''false'') st = Some e \<longrightarrow>
          validateSqlSafety ?astify (Some ''false'') ?q = Invalid e"
    by blast
  then have "[selectStatement, deleteStatement JNull] = [selectStatement] @ deleteStatement JNull # [] \<and>
          list_all (\<lambda>st. validateStatement (Some ''false'') st = None) [selectStatement] \<and>
          validateStatement (Some ''false'') (deleteStatement JNull) =
            Some ''DELETE operations must include a WHERE clause'' \<longrightarrow>
          validateSqlSafety ?astify (Some ''false'') ?q =
            Invalid ''DELETE operations must include a WHERE clause''"
    by blast
  then show ?thesis
    by (simp add: select_passes d)
qed

text \<open>
  Claim C4. In read-write mode (\<open>READ_ONLY\<close> set to \<open>false\<close>) validation of an UPDATE or
  DELETE is to reject a missing WHERE clause, to reject a WHERE clause of one of the
  documented trivial shapes, among them the equality of two identical column references,
  and to allow every other WHERE clause. The code does not keep this for a plain column
  name. For \<open>DELETE FROM users WHERE id = id\<close> the parser hands over two column
  references whose \<open>column\<close> holds, under \<open>expr\<close>, a node of type \<open>default\<close>. That node
  is neither a \<open>double_quote_string\<close> node nor a string, so neither of the two column
  tests of the code applies (the second one is commented as the test for the same column
  name), and validation returns valid.
\<close>

theorem same_column_equality_allowed:
  "documentedTrivialShape (equalityNode (columnNode ''id'') (columnNode ''id'')) \<and>
   validateSqlSafety
     (parserTable [(''DELETE FROM users WHERE id = id'',
                    AstSingle (deleteStatement (equalityNode (columnNode ''id'') (columnNode ''id''))))])
     (Some ''false'') ''DELETE FROM users WHERE id = id'' = Valid"
proof -
  let ?q = "''DELETE FROM users WHERE id = id''"
  let ?w = "equalityNode (columnNode ''id'') (columnNode ''id'')"
  have t: "trim ?q = ?q"
    by code_simp
  have f: "firstWord ?q = ''DELETE''"
    unfolding firstWord_def by code_simp
  have shape: "documentedTrivialShape ?w"
    by (simp add: documentedTrivialShape_def isEqualityOf_def sameColumns_def columnRefName_def
        nodeType_def equalityNode_def columnNode_def identifierNode_def)
  have "\<not> whereIsTrivial ?w"
    by (simp add: whereIsTrivial_def Let_def js_or_def get_opt_def equalityNode_def columnNode_def
        identifierNode_def)
  then have "validateStatement (Some ''false'') (deleteStatement ?w) = None"
    by (simp add: validateStatement_def deleteStatement_def upper_delete DANGEROUS_OPERATIONS_def
        image_iff isReadOnlyMode_def Let_def equalityNode_def)
  then have "validateSqlSafety (parserTable [(?q, AstSingle (deleteStatement ?w))]) (Some ''false'') ?q =
               Valid"
    by (simp add: validateSqlSafety_parsed t f DANGEROUS_OPERATIONS_def parserTable_def)
  with shape show ?thesis by simp
qed

text \<open>
  The other rules are kept on the same kind of input: a missing WHERE clause and
  \<open>WHERE 1=1\<close> are rejected, \<open>WHERE id = 123\<close> is allowed.
\<close>

lemma other_where_rules_kept:
  "validateStatement (Some ''false'') (updateStatement JNull) =
     Some ''UPDATE operations must include a WHERE clause'' \<and>
   validateStatement (Some ''false'') (updateStatement (equalityNode (numberNode 1) (numberNode 1))) =
     Some ''UPDATE operations cannot use trivial WHERE clauses like WHERE 1=1 or WHERE TRUE'' \<and>
   validateStatement (Some ''false'') (deleteStatement (equalityNode (columnNode ''id'') (numberNode 123))) =
     None"
proof -
  have a: "whereIsTrivial (equalityNode (numberNode 1) (numberNode 1))"
    by (simp add: whereIsTrivial_def Let_def equalityNode_def numberNode_def)
  have b: "\<not> whereIsTrivial (equalityNode (columnNode ''id'') (numberNode 123))"
    by (simp add: whereIsTrivial_def Let_def equalityNode_def numberNode_def columnNode_def
        identifierNode_def)
  show ?thesis
    using a b
    by (simp add: validateStatement_def updateStatement_def deleteStatement_def upper_update
        upper_delete DANGEROUS_OPERATIONS_def image_iff isReadOnlyMode_def Let_def equalityNode_def
        template_def trivialWhereError_def)
qed

text \<open>
  The same equality between double-quoted identifiers, which the parser hands over in the
  same place with the type \<open>double_quote_string\<close>, is rejected as trivial.
\<close>

lemma quoted_column_equality_rejected:
  "validateStatement (Some ''false'')
     (deleteStatement (equalityNode (quotedColumnNode ''id'') (quotedColumnNode ''id''))) =
   Some ''DELETE operations cannot use trivial WHERE clauses like WHERE 1=1 or WHERE TRUE''"
proof -
  let ?w = "equalityNode (quotedColumnNode ''id'') (quotedColumnNode ''id'')"
  have "whereIsTrivial ?w"
    by (simp add: whereIsTrivial_def Let_def js_or_def get_opt_def equalityNode_def
        quotedColumnNode_def identifierNode_def)
  then show ?thesis
    by (simp add: validateStatement_def deleteStatement_def upper_delete DANGEROUS_OPERATIONS_def
        image_iff isReadOnlyMode_def Let_def equalityNode_def template_def trivialWhereError_def)
qed

text \<open>
  Claim C5. For every SQL string that is not empty, whose leading word is neither a
  dangerous operation nor EXPLAIN, MERGE or UPSERT, and that the parser fails to parse,
  validation rejects with \<open>Invalid SQL syntax - unable to parse query\<close>, for every value
  of \<open>READ_ONLY\<close>. In the code classification and validation are one function; the branch
  of the failed parse is its Unparseable outcome, and it never lets the request through.
\<close>

theorem parse_failure_rejected:
  assumes "trim s \<noteq> []" and "firstWord s \<notin> set DANGEROUS_OPERATIONS"
    and "firstWord s \<noteq> ''EXPLAIN''" and "firstWord s \<noteq> ''MERGE''" and "firstWord s \<noteq> ''UPSERT''"
    and "astify (trim s) = None"
  shows "validateSqlSafety astify READ_ONLY s = Invalid ''Invalid SQL syntax - unable to parse query'' \<and>
         \<not> isValid (validateSqlSafety astify READ_ONLY s) \<and>
         str_includes ''Invalid SQL syntax - unable to parse query'' ''Invalid SQL syntax''"
proof -
  have "sublist ''Invalid SQL syntax'' (''Invalid SQL syntax'' @ '' - unable to parse query'')"
    by (rule sublist_append_rightI)
  then have "str_includes ''Invalid SQL syntax - unable to parse query'' ''Invalid SQL syntax''"
    by (simp add: str_includes_def)
  then show ?thesis
    using assms by (simp add: validateSqlSafety_parsed)
qed

theorem parse_failure_rejected_witness:
  "validateSqlSafety (parserTable []) None ''SELEC * FORM users'' =
     Invalid ''Invalid SQL syntax - unable to parse query'' \<and>
   validateSqlSafety (parserTable []) (Some ''false'') ''SELEC * FORM users'' =
     Invalid ''Invalid SQL syntax - unable to parse query''"
proof -
  have t: "trim ''SELEC * FORM users'' \<noteq> []"
    by code_simp
  have f: "firstWord ''SELEC * FORM users'' = ''SELEC''"
    unfolding firstWord_def by code_simp
  have d: "firstWord ''SELEC * FORM users'' \<notin> set DANGEROUS_OPERATIONS"
    unfolding f by (simp add: DANGEROUS_OPERATIONS_def)
  have e: "firstWord ''SELEC * FORM users'' \<noteq> ''EXPLAIN''" "firstWord ''SELEC * FORM users'' \<noteq> ''MERGE''"
    "firstWord ''SELEC * FORM users'' \<noteq> ''UPSERT''"
    unfolding f by simp_all
  have p: "parserTable [] (trim ''SELEC * FORM users'') = None"
    by (simp add: parserTable_def)
  show ?thesis
    using parse_failure_rejected [where s = "''SELEC * FORM users''" and astify = "parserTable []" and READ_ONLY = None,
                     OF t d e p]
          parse_failure_rejected [where s = "''SELEC * FORM users''" and astify = "parserTable []"
                     and READ_ONLY = "Some ''false''", OF t d e p]
    by simp
qed

section \<open>Claims about the query tool\<close>

text \<open>
  Claim C8 says that for every parameter sequence with an element that is not a scalar the
  sanitizer returns an error and the query tool returns that error. The sanitizer does;
  the query tool returns the error of the check that refuses the request first, and input
  validation runs before the sanitizer: a request with an object among its parameters
  comes back with \<open>Input validation failed\<close>, not with the error of the sanitizer.
\<close>

theorem object_parameter_stopped_by_input_validation:
  "validateParameters [JObj [(''malicious'', JBool True)]] =
     Some ''Invalid parameter type - only string, number, boolean, and null are allowed'' \<and>
   fst (queryTool (validateInput_spec defaultConfig)
          (parserTable [(''SELECT * FROM users WHERE data = $1'', AstSingle selectStatement)])
          None defaultConfig (constPool \<lparr> result_rows = [1::nat], result_rowCount = Some 1 \<rparr>)
          sum_list
          (rawRequest ''SELECT * FROM users WHERE data = $1'' [JObj [(''malicious'', JBool True)]])) \<noteq>
     errorOutput ''Invalid parameter type - only string, number, boolean, and null are allowed''"
proof -
  let ?raw = "rawRequest ''SELECT * FROM users WHERE data = $1'' [JObj [(''malicious'', JBool True)]]"
  have "validateInput_spec defaultConfig ?raw = Inl ''parameters: expected an array of primitives''"
    by (simp add: validateInput_spec_def rawRequest_def isPrimitive_def Let_def)
  then show ?thesis
    by (simp add: queryTool_def errorOutput_def emptyOutput_def)
qed

text \<open>
  Claim C8, amended. For every parameter sequence with at least one element that is not
  \<open>null\<close>, a boolean, a finite number or a string, the parameter sanitizer returns an
  error, and sequences of such scalars only (the empty one included) pass it. A request
  that carries such a sequence is never sent to the execution layer: the query tool
  returns the error of the first check that refuses it, in the order input validation,
  SQL safety validation, parameter sanitizer. Input validation refuses a parameter that
  is not a primitive (an object, an array, a function) with \<open>Input validation failed\<close>,
  so the error of the sanitizer is what the query tool returns only for a request that
  has passed input validation and SQL safety validation.
\<close>

theorem non_scalar_parameter_never_executed:
  "((validateParameters params = None) = list_all isScalar params) \<and>
   (validateInput input = Inl e \<longrightarrow>
      queryTool validateInput astify READ_ONLY cfg pool payloadBytes input =
        (errorOutput (''Input validation failed: '' @ e), [])) \<and>
   (validateInput input = Inr v \<and> input_parameters v = Some params \<and> \<not> list_all isScalar params \<longrightarrow>
      (\<exists>pe. validateParameters params = Some pe \<and>
         snd (queryTool validateInput astify READ_ONLY cfg pool payloadBytes input) = [] \<and>
         rows (fst (queryTool validateInput astify READ_ONLY cfg pool payloadBytes input)) = None \<and>
         error (fst (queryTool validateInput astify READ_ONLY cfg pool payloadBytes input)) \<noteq> None \<and>
         (\<forall>se. validateSqlSafety astify READ_ONLY (input_sql v) = Invalid se \<longrightarrow>
            fst (queryTool validateInput astify READ_ONLY cfg pool payloadBytes input) = errorOutput se) \<and>
         (validateSqlSafety astify READ_ONLY (input_sql v) = Valid \<longrightarrow>
            fst (queryTool validateInput astify READ_ONLY cfg pool payloadBytes input) = errorOutput pe))) \<and>
   (get raw ''parameters'' = JArr xs \<and> \<not> list_all isPrimitive xs \<longrightarrow>
      (\<exists>ie. validateInput_spec cfg raw = Inl ie \<and>
         queryTool (validateInput_spec cfg) astify READ_ONLY cfg pool payloadBytes raw =
           (errorOutput (''Input validation failed: '' @ ie), [])))"
proof (intro conjI impI)
  show "(validateParameters params = None) = list_all isScalar params"
    by (rule validateParameters_None_iff)
next
  assume "validateInput input = Inl e"
  then show "queryTool validateInput astify READ_ONLY cfg pool payloadBytes input =
        (errorOutput (''Input validation failed: '' @ e), [])"
    by (rule queryTool_input_rejected)
next
  assume a: "validateInput input = Inr v \<and> input_parameters v = Some params \<and> \<not> list_all isScalar params"
  then have "validateParameters params \<noteq> None"
    by (simp add: validateParameters_None_iff)
  then obtain pe where pe: "validateParameters params = Some pe" by blast
  from a have "validateInput input = Inr v" and "input_parameters v = Some params" by simp_all
  with pe queryTool_bad_parameters [where validateInput = validateInput and input = input and v = v
      and params = params and e = pe and astify = astify and READ_ONLY = READ_ONLY and cfg = cfg
      and pool = pool and payloadBytes = payloadBytes]
  show "\<exists>pe. validateParameters params = Some pe \<and>
         snd (queryTool validateInput astify READ_ONLY cfg pool payloadBytes input) = [] \<and>
         rows (fst (queryTool validateInput astify READ_ONLY cfg pool payloadBytes input)) = None \<and>
         error (fst (queryTool validateInput astify READ_ONLY cfg pool payloadBytes input)) \<noteq> None \<and>
         (\<forall>se. validateSqlSafety astify READ_ONLY (input_sql v) = Invalid se \<longrightarrow>
            fst (queryTool validateInput astify READ_ONLY cfg pool payloadBytes input) = errorOutput se) \<and>
         (validateSqlSafety astify READ_ONLY (input_sql v) = Valid \<longrightarrow>
            fst (queryTool validateInput astify READ_ONLY cfg pool payloadBytes input) = errorOutput pe)"
    by blast
next
  assume "get raw ''parameters'' = JArr xs \<and> \<not> list_all isPrimitive xs"
  then obtain ie where ie: "validateInput_spec cfg raw = Inl ie"
    using validateInput_spec_non_primitive [of raw xs cfg] by blast
  then have "queryTool (validateInput_spec cfg) astify READ_ONLY cfg pool payloadBytes raw =
           (errorOutput (''Input validation failed: '' @ ie), [])"
    by (rule queryTool_input_rejected)
  with ie show "\<exists>ie. validateInput_spec cfg raw = Inl ie \<and>
         queryTool (validateInput_spec cfg) astify READ_ONLY cfg pool payloadBytes raw =
           (errorOutput (''Input validation failed: '' @ ie), [])"
    by blast
qed

theorem non_scalar_parameter_never_executed_witness:
  "validateParameters [JNum (Finite 18), JStr ''John'', JBool True, JNull] = None \<and>
   validateParameters [] = None \<and>
   validateParameters [JStr ''a'', JArr [JNum (Finite 1)]] \<noteq> None \<and>
   validateParameters [JFun] \<noteq> None \<and>
   validateParameters [JNum NaN] \<noteq> None \<and>
   queryTool (validateInput_spec defaultConfig)
     (parserTable [(''SELECT * FROM users WHERE id = $1'', AstSingle selectStatement)])
     None defaultConfig (constPool \<lparr> result_rows = [1::nat], result_rowCount = Some 1 \<rparr>) sum_list
     (rawRequest ''SELECT * FROM users WHERE id = $1'' [JArr [JNum (Finite 1), JNum (Finite 2)]]) =
   (errorOutput ''Input validation failed: parameters: expected an array of primitives'', []) \<and>
   queryTool (validateInput_spec defaultConfig)
     (parserTable [(''SELECT * FROM users WHERE id = $1'', AstSingle selectStatement)])
     None defaultConfig (constPool \<lparr> result_rows = [1::nat], result_rowCount = Some 1 \<rparr>) sum_list
     (rawRequest ''SELECT * FROM users WHERE id = $1'' [JNum PosInfinity]) =
   (errorOutput ''Invalid numeric parameter - must be finite number'', [])"
proof -
  let ?q = "''SELECT * FROM users WHERE id = $1''"
  let ?astify = "parserTable [(?q, AstSingle selectStatement)]"
  let ?pool = "constPool \<lparr> result_rows = [1::nat], result_rowCount = Some 1 \<rparr>"
  let ?vi = "validateInput_spec defaultConfig"
  let ?arr = "[JArr [JNum (Finite 1), JNum (Finite 2)]]"
  let ?inf = "[JNum PosInfinity]"
  have t: "trim ?q = ?q"
    by code_simp
  have f: "firstWord ?q = ''SELECT''"
    unfolding firstWord_def by code_simp
  have v: "validateSqlSafety ?astify None ?q = Valid"
    by (simp add: validateSqlSafety_parsed t f DANGEROUS_OPERATIONS_def parserTable_def select_passes)
  have i1: "?vi (rawRequest ?q ?arr) = Inl ''parameters: expected an array of primitives''"
    by (simp add: validateInput_spec_def rawRequest_def isPrimitive_def Let_def)
  have i2: "?vi (rawRequest ?q ?inf) = Inr (request ?q (Some ?inf))"
    by (simp add: validateInput_spec_def rawRequest_def isPrimitive_def Let_def request_def)
  have a: "queryTool ?vi ?astify None defaultConfig ?pool sum_list (rawRequest ?q ?arr) =
             (errorOutput ''Input validation failed: parameters: expected an array of primitives'', [])"
  proof -
    have h: "get (rawRequest ?q ?arr) ''parameters'' = JArr ?arr \<and> \<not> list_all isPrimitive ?arr"
      by (simp add: rawRequest_def isPrimitive_def)
    from non_scalar_parameter_never_executed [where raw = "rawRequest ?q ?arr" and xs = ?arr
        and cfg = defaultConfig and astify = ?astify and READ_ONLY = None and pool = ?pool
        and payloadBytes = sum_list, THEN conjunct2, THEN conjunct2, THEN conjunct2, THEN mp, OF h]
    obtain ie where "?vi (rawRequest ?q ?arr) = Inl ie"
      and "queryTool ?vi ?astify None defaultConfig ?pool sum_list (rawRequest ?q ?arr) =
             (errorOutput (''Input validation failed: '' @ ie), [])"
      by (elim exE conjE)
    with i1 show ?thesis by simp
  qed
  have b: "queryTool ?vi ?astify None defaultConfig ?pool sum_list (rawRequest ?q ?inf) =
             (errorOutput ''Invalid numeric parameter - must be finite number'', [])"
  proof -
    have h: "?vi (rawRequest ?q ?inf) = Inr (request ?q (Some ?inf)) \<and>
          input_parameters (request ?q (Some ?inf)) = Some ?inf \<and> \<not> list_all isScalar ?inf"
      using i2 by (simp add: request_def)
    from non_scalar_parameter_never_executed [where validateInput = ?vi
        and input = "rawRequest ?q ?inf" and v = "request ?q (Some ?inf)" and params = ?inf
        and cfg = defaultConfig and astify = ?astify and READ_ONLY = None and pool = ?pool
        and payloadBytes = sum_list, THEN conjunct2, THEN conjunct2, THEN conjunct1, THEN mp, OF h]
    obtain pe where pe: "validateParameters ?inf = Some pe"
      and r: "snd (queryTool ?vi ?astify None defaultConfig ?pool sum_list (rawRequest ?q ?inf)) = []"
      and o: "validateSqlSafety ?astify None (input_sql (request ?q (Some ?inf))) = Valid \<longrightarrow>
              fst (queryTool ?vi ?astify None defaultConfig ?pool sum_list (rawRequest ?q ?inf)) =
                errorOutput pe"
      by (elim exE conjE)
    from pe have p: "pe = ''Invalid numeric parameter - must be finite number''"
      by simp
    have "input_sql (request ?q (Some ?inf)) = ?q"
      by (simp add: request_def)
    with o v
    have "fst (queryTool ?vi ?astify None defaultConfig ?pool sum_list (rawRequest ?q ?inf)) =
            errorOutput pe"
      by simp
    with r p show ?thesis
      by (simp only: prod_eq_iff fst_conv snd_conv simp_thms)
  qed
  have s1: "validateParameters [JNum (Finite 18), JStr ''John'', JBool True, JNull] = None"
    using non_scalar_parameter_never_executed
            [of "[JNum (Finite 18), JStr ''John'', JBool True, JNull]", THEN conjunct1]
    by simp
  have s2: "validateParameters [] = None"
    by simp
  have s3: "validateParameters [JStr ''a'', JArr [JNum (Finite 1)]] \<noteq> None"
    using non_scalar_parameter_never_executed [of "[JStr ''a'', JArr [JNum (Finite 1)]]", THEN conjunct1]
    by simp
  have s4: "validateParameters [JFun] \<noteq> None"
    using non_scalar_parameter_never_executed [of "[JFun]", THEN conjunct1] by simp
  have s5: "validateParameters [JNum NaN] \<noteq> None"
    using non_scalar_parameter_never_executed [of "[JNum NaN]", THEN conjunct1] by simp
  from s1 s2 s3 s4 s5 a b show ?thesis
    by (intro conjI)
qed

text \<open>
  Claim C9. On the success path of a read-only statement (the request passed input, SQL
  and parameter validation, its text starts with SELECT, WITH or EXPLAIN, and the pool
  returned a result): when the serialized size of the rows exceeds \<open>MAX_PAYLOAD_SIZE\<close>
  the query tool returns an error only, without rows and row count, whose message gives
  the payload size and the maximum in megabytes and suggests reducing \<open>pageSize\<close> or
  adding WHERE conditions; otherwise the rows are returned as the pool delivered them.
\<close>

theorem oversized_payload_rejected:
  assumes "validateInput input = Inr v"
    and "validateSqlSafety astify READ_ONLY (input_sql v) = Valid"
    and "params = (case input_parameters v of None \<Rightarrow> [] | Some ps \<Rightarrow> ps)"
    and "validateParameters params = None"
    and "isReadOnlyQuery (trim (input_sql v))"
    and "pool (sql (applyPagination cfg (trim (input_sql v)) (input_pageSize v) (input_offset v)))
           (if 0 < length params then Some params else None) = Inr result"
  shows "(MAX_PAYLOAD_SIZE cfg < payloadBytes (result_rows result) \<longrightarrow>
           fst (queryTool validateInput astify READ_ONLY cfg pool payloadBytes input) =
             \<lparr> rows = None, rowCount = None, pagination = None,
               error = Some (''Query result payload ('' @ toFixed2_MB (payloadBytes (result_rows result)) @
                             ''MB) exceeds maximum allowed size ('' @ toFixed2_MB (MAX_PAYLOAD_SIZE cfg) @
                             ''MB). Please reduce pageSize or add more specific WHERE conditions to limit results.''),
               code = None, hint = None \<rparr>) \<and>
         (payloadBytes (result_rows result) \<le> MAX_PAYLOAD_SIZE cfg \<longrightarrow>
           rows (fst (queryTool validateInput astify READ_ONLY cfg pool payloadBytes input)) =
             Some (result_rows result) \<and>
           rowCount (fst (queryTool validateInput astify READ_ONLY cfg pool payloadBytes input)) =
             Some (length (result_rows result)) \<and>
           error (fst (queryTool validateInput astify READ_ONLY cfg pool payloadBytes input)) = None)"
proof -
  have p: "(case input_parameters v of None \<Rightarrow> [] | Some ps \<Rightarrow> ps) = params"
    using assms(3) by simp
  show ?thesis
    using assms(1,2,4,5,6)
    by (cases "params = []")
       (simp_all add: queryTool_def Let_def p errorOutput_def emptyOutput_def payloadTooLarge_def)
qed

theorem oversized_payload_rejected_witness:
  "fst (queryTool acceptInput (parserTable [(''SELECT * FROM users'', AstSingle selectStatement)])
          None defaultConfig (constPool \<lparr> result_rows = [6000000::nat], result_rowCount = Some 1 \<rparr>)
          sum_list (request ''SELECT * FROM users'' None)) =
     \<lparr> rows = None, rowCount = None, pagination = None,
       error = Some ''Query result payload (5.72MB) exceeds maximum allowed size (5.00MB). Please reduce pageSize or add more specific WHERE conditions to limit results.'',
       code = None, hint = None \<rparr> \<and>
   rows (fst (queryTool acceptInput (parserTable [(''SELECT * FROM users'', AstSingle selectStatement)])
          None defaultConfig (constPool \<lparr> result_rows = [5242880::nat], result_rowCount = Some 1 \<rparr>)
          sum_list (request ''SELECT * FROM users'' None))) = Some [5242880]"
proof -
  let ?q = "''SELECT * FROM users''"
  let ?astify = "parserTable [(?q, AstSingle selectStatement)]"
  let ?big = "\<lparr> result_rows = [6000000::nat], result_rowCount = Some 1 \<rparr>"
  let ?ok = "\<lparr> result_rows = [5242880::nat], result_rowCount = Some 1 \<rparr>"
  have t: "trim ?q = ?q"
    by code_simp
  have f: "firstWord ?q = ''SELECT''"
    unfolding firstWord_def by code_simp
  have h1: "acceptInput (request ?q None) = Inr (request ?q None)"
    by (simp add: acceptInput_def)
  have h2: "validateSqlSafety ?astify None (input_sql (request ?q None)) = Valid"
    by (simp add: request_def validateSqlSafety_parsed t f DANGEROUS_OPERATIONS_def parserTable_def
        select_passes)
  have h3: "[] = (case input_parameters (request ?q None) of None \<Rightarrow> [] | Some ps \<Rightarrow> ps)"
    by (simp add: request_def)
  have h4: "validateParameters [] = None"
    by simp
  have r: "isReadOnlyQuery ?q"
    by code_simp
  have h5: "isReadOnlyQuery (trim (input_sql (request ?q None)))"
    by (simp add: request_def t r)
  have h6: "constPool ?big
              (sql (applyPagination defaultConfig (trim (input_sql (request ?q None)))
                     (input_pageSize (request ?q None)) (input_offset (request ?q None))))
              (if 0 < length ([]::jsval list) then Some [] else None) = Inr ?big"
    by (simp add: constPool_def)
  have h7: "constPool ?ok
              (sql (applyPagination defaultConfig (trim (input_sql (request ?q None)))
                     (input_pageSize (request ?q None)) (input_offset (request ?q None))))
              (if 0 < length ([]::jsval list) then Some [] else None) = Inr ?ok"
    by (simp add: constPool_def)
  have m: "toFixed2_MB 6000000 = ''5.72''" "toFixed2_MB 5242880 = ''5.00''"
    by (simp_all add: toFixed2_MB_def string_of_nat.simps digit_char_def)
  show ?thesis
    using oversized_payload_rejected [where validateInput = acceptInput and input = "request ?q None"
                    and v = "request ?q None" and astify = ?astify and READ_ONLY = None
                    and params = "[]" and pool = "constPool ?big" and cfg = defaultConfig
                    and result = ?big and payloadBytes = sum_list, OF h1 h2 h3 h4 h5 h6]
          oversized_payload_rejected [where validateInput = acceptInput and input = "request ?q None"
                    and v = "request ?q None" and astify = ?astify and READ_ONLY = None
                    and params = "[]" and pool = "constPool ?ok" and cfg = defaultConfig
                    and result = ?ok and payloadBytes = sum_list, OF h1 h2 h3 h4 h5 h7]
    by (simp add: defaultConfig_def m)
qed

end
